theory Spec2Isabelle
  imports Main "HOL-Library.Sublist" "HOL-Library.Char_ord" "HOL-Library.List_Lexorder"
    "HOL-Library.Product_Lexorder"
begin

section \<open>Python strings\<close>

text \<open>
  A Python \<open>str\<close> is modelled as a \<open>string\<close>, a list of characters with code points
  below 256. The character classes below are Python's (\<open>str.isspace\<close>, the decimal
  digits of \<open>\d\<close> and \<open>int\<close>) restricted to these code points.
\<close>

definition is_space :: "char \<Rightarrow> bool" where
  "is_space c =
     (let n = (of_char c :: nat)
      in (9 \<le> n \<and> n \<le> 13) \<or> (28 \<le> n \<and> n \<le> 32) \<or> n = 133 \<or> n = 160)"

definition is_digit :: "char \<Rightarrow> bool" where
  "is_digit c = (let n = (of_char c :: nat) in 48 \<le> n \<and> n \<le> 57)"

definition digit_val :: "char \<Rightarrow> nat" where
  "digit_val c = of_char c - 48"

text \<open>\<open>int(s)\<close> on a string of decimal digits.\<close>

definition int_of_digits :: "string \<Rightarrow> nat" where
  "int_of_digits ds = foldl (\<lambda>n c. 10 * n + digit_val c) 0 ds"

text \<open>\<open>s.strip()\<close>, \<open>s.lstrip()\<close> and \<open>s.rstrip(chars)\<close>.\<close>

definition py_lstrip :: "string \<Rightarrow> string" where
  "py_lstrip s = dropWhile is_space s"

definition py_strip :: "string \<Rightarrow> string" where
  "py_strip s = rev (dropWhile is_space (rev (dropWhile is_space s)))"

definition py_rstrip_chars :: "string \<Rightarrow> string \<Rightarrow> string" where
  "py_rstrip_chars chars s = rev (dropWhile (\<lambda>c. c \<in> set chars) (rev s))"

text \<open>\<open>s.startswith(p)\<close> and \<open>p in s\<close>.\<close>

definition startswith :: "string \<Rightarrow> string \<Rightarrow> bool" where
  "startswith s p = (take (length p) s = p)"

fun contains :: "string \<Rightarrow> string \<Rightarrow> bool" where
  "contains [] p = (p = [])"
| "contains (c # cs) p = (startswith (c # cs) p \<or> contains cs p)"

text \<open>
  \<open>s.split(sep)\<close> for a separator that is not empty (every separator of the sources is a
  literal: a newline, a slash, or \<open>" FR "\<close>): the pieces between the occurrences of
  \<open>sep\<close> found from the left, never an empty list.
\<close>

function py_split :: "string \<Rightarrow> string \<Rightarrow> string list" where
  "py_split sep [] = [[]]"
| "py_split sep (c # cs) =
     (if sep \<noteq> [] \<and> startswith (c # cs) sep
      then [] # py_split sep (drop (length sep) (c # cs))
      else (case py_split sep cs of
              [] \<Rightarrow> [[c]]
            | p # ps \<Rightarrow> (c # p) # ps))"
  by pat_completeness auto
termination
  by (relation "measure (\<lambda>(sep, s). length s)") (auto simp: startswith_def)

text \<open>
  \<open>s.replace(old, new)\<close>: every occurrence of \<open>old\<close>, found from the left without
  overlap, becomes \<open>new\<close>.
\<close>

function py_replace :: "string \<Rightarrow> string \<Rightarrow> string \<Rightarrow> string" where
  "py_replace old new [] = (if old = [] then new else [])"
| "py_replace old new (c # cs) =
     (if old = [] then new @ c # py_replace old new cs
      else if startswith (c # cs) old
      then new @ py_replace old new (drop (length old) (c # cs))
      else c # py_replace old new cs)"
  by pat_completeness auto
termination
  by (relation "measure (\<lambda>(old, new, s). length s)") (auto simp: startswith_def)

text \<open>\<open>sep.join(xs)\<close>.\<close>

fun py_join :: "string \<Rightarrow> string list \<Rightarrow> string" where
  "py_join sep [] = []"
| "py_join sep [x] = x"
| "py_join sep (x # y # ys) = x @ sep @ py_join sep (y # ys)"

text \<open>
  The idiom \<open>[u.strip() for u in cell.split("\n") if u.strip()]\<close> of three of the
  scripts.
\<close>

definition split_lines_stripped :: "string \<Rightarrow> string list" where
  "split_lines_stripped cell =
     map py_strip (filter (\<lambda>u. py_strip u \<noteq> []) (py_split [CHR 0x0A] cell))"

section \<open>Statute Text Joiner: fiscal year and section tokens (add\_ndaa\_text.py)\<close>

text \<open>
  \<open>re.match(r"FY(\d+)", fy_str)\<close> anchors at the start of the string and takes the
  longest run of digits after \<open>FY\<close>; what follows the digits is ignored. Python's
  integers are unbounded.
\<close>

definition parse_fy :: "string \<Rightarrow> int option" where
  "parse_fy fy_str =
     (case fy_str of
        f # y # rest \<Rightarrow>
          (if f = CHR ''F'' \<and> y = CHR ''Y'' \<and> takeWhile is_digit rest \<noteq> []
           then (let num = int (int_of_digits (takeWhile is_digit rest))
                 in if num < 100 then Some (2000 + num) else Some num)
           else None)
      | _ \<Rightarrow> None)"

definition parse_section_enum :: "string \<Rightarrow> string option" where
  "parse_section_enum section_str =
     (if takeWhile is_digit section_str = [] then None
      else Some (takeWhile is_digit section_str @ ''.''))"

section \<open>Tracker Parser (parse\_tracker.py)\<close>

text \<open>
  \<open>pdfplumber\<close> hands over each page as a list of tables, a table as a list of rows
  and a row as a list of cells, a cell being a string or \<open>None\<close>. \<open>(cell or "")\<close>
  reads \<open>None\<close> as the empty string.
\<close>

type_synonym cell = "string option"

definition cell_str :: "cell \<Rightarrow> string" where
  "cell_str c = (case c of None \<Rightarrow> [] | Some s \<Rightarrow> s)"

record tracker_row =
  ndaa_year :: string
  ndaa_section :: string
  paragraph_col :: string
  section_title :: string
  status :: string
  case_number :: string
  frn_citation :: string
  fr_date :: string

text \<open>
  The body of the innermost loop: \<open>None\<close> when the row is passed over (too short, a
  repeated header, or no final-rule citation), the appended record otherwise.
\<close>

definition process_table_row :: "cell list \<Rightarrow> tracker_row option" where
  "process_table_row row =
     (if length row < 17 then None
      else
        (let ndaa_year0 = py_replace [CHR 0x0A] '' '' (py_strip (cell_str (row ! 0)));
             ndaa_section = py_replace [CHR 0x0A] '' '' (py_strip (cell_str (row ! 1)));
             para = py_strip (cell_str (row ! 2));
             section_title = py_strip (cell_str (row ! 3));
             status = py_strip (cell_str (row ! 4));
             case_number = py_replace [CHR 0x0A] [CHR 0x0A] (py_strip (cell_str (row ! 9)));
             final_rule_frn = py_strip (cell_str (row ! 14));
             final_rule_date = py_strip (cell_str (row ! 15));
             ndaa_year = py_replace ''FY '' ''FY'' ndaa_year0
         in if ndaa_year \<in> set [''NDAA Year'', ''Column 1'', ''Column1'', []]
               \<or> ndaa_section \<in> set [''NDAA Section'', ''Column2'', []]
               \<or> final_rule_frn \<in> set [''FRN Citation'', ''Column15'', ''Final Rule'']
            then None
            else if final_rule_frn \<noteq> []
            then Some \<lparr> ndaa_year = ndaa_year, ndaa_section = ndaa_section,
                        paragraph_col = para,
                        section_title = py_replace [CHR 0x0A] '' '' section_title,
                        status = status, case_number = case_number,
                        frn_citation = final_rule_frn, fr_date = final_rule_date \<rparr>
            else None))"

text \<open>The three nested loops, each threading the list \<open>results\<close>.\<close>

fun table_loop :: "tracker_row list \<Rightarrow> cell list list \<Rightarrow> tracker_row list" where
  "table_loop results [] = results"
| "table_loop results (row # rows) =
     table_loop (case process_table_row row of
                   None \<Rightarrow> results
                 | Some r \<Rightarrow> results @ [r]) rows"

fun tables_loop :: "tracker_row list \<Rightarrow> cell list list list \<Rightarrow> tracker_row list" where
  "tables_loop results [] = results"
| "tables_loop results (table # tables) = tables_loop (table_loop results table) tables"

fun pages_loop :: "tracker_row list \<Rightarrow> cell list list list list \<Rightarrow> tracker_row list" where
  "pages_loop results [] = results"
| "pages_loop results (tables # pages) =
     (if tables = [] then pages_loop results pages
      else pages_loop (tables_loop results tables) pages)"

definition extract_final_rule_citations :: "cell list list list list \<Rightarrow> tracker_row list" where
  "extract_final_rule_citations pdf = pages_loop [] pdf"

section \<open>Exceptions\<close>

text \<open>
  The exceptions that the modelled code can raise and that no handler of the scripts
  catches. A function that can raise returns \<open>py_error + 'a\<close>, \<open>Inl\<close> carrying the
  exception.
\<close>

datatype py_error = ValueError | IndexError

section \<open>URLs and paths (urllib.parse, os.path)\<close>

text \<open>
  \<open>urlparse(url).path\<close>, after \<open>urlsplit\<close> and \<open>urlparse\<close> of the standard library:
  leading control characters and spaces are dropped, tabs and line breaks removed, then
  the scheme, the network location, the fragment, the query and the parameters of the
  last segment are split off. \<open>urlsplit\<close> raises \<open>ValueError\<close> for a network
  location with unbalanced brackets, or with a bracketed host that
  \<open>_check_bracketed_host\<close> rejects; that check (the \<open>ipaddress\<close> parser) is the
  parameter \<open>host_ok\<close>. The NFKC check of the network location cannot fail for code
  points below 256.
\<close>

definition is_c0_or_space :: "char \<Rightarrow> bool" where
  "is_c0_or_space c = ((of_char c :: nat) \<le> 32)"

definition is_ascii_alpha :: "char \<Rightarrow> bool" where
  "is_ascii_alpha c =
     (let n = (of_char c :: nat) in (65 \<le> n \<and> n \<le> 90) \<or> (97 \<le> n \<and> n \<le> 122))"

definition lower_ascii :: "char \<Rightarrow> char" where
  "lower_ascii c =
     (let n = (of_char c :: nat) in if 65 \<le> n \<and> n \<le> 90 then char_of (n + 32) else c)"

definition scheme_chars :: string where
  "scheme_chars = ''abcdefghijklmnopqrstuvwxyzABCDEFGHIJKLMNOPQRSTUVWXYZ0123456789+-.''"

definition uses_params :: "string list" where
  "uses_params = ['''', ''ftp'', ''hdl'', ''prospero'', ''http'', ''imap'', ''https'', ''shttp'',
     ''rtsp'', ''rtsps'', ''rtspu'', ''sip'', ''sips'', ''mms'', ''sftp'', ''tel'']"

text \<open>The scheme and the rest, when the text before the first colon is a scheme.\<close>

definition split_scheme :: "string \<Rightarrow> string \<times> string" where
  "split_scheme url =
     (let pre = takeWhile (\<lambda>c. c \<noteq> CHR '':'') url
      in if length pre < length url \<and> pre \<noteq> [] \<and> is_ascii_alpha (hd url)
            \<and> list_all (\<lambda>c. c \<in> set scheme_chars) pre
         then (map lower_ascii pre, drop (length pre + 1) url)
         else ([], url))"

text \<open>\<open>_splitnetloc(url, 2)\<close>: the network location ends at the first of \<open>/ ? #\<close>.\<close>

definition splitnetloc :: "string \<Rightarrow> string \<times> string" where
  "splitnetloc url =
     (let netloc = takeWhile (\<lambda>c. c \<notin> set ''/?#'') (drop 2 url)
      in (netloc, drop (2 + length netloc) url))"

definition splitparams :: "string \<Rightarrow> string" where
  "splitparams url =
     (if CHR ''/'' \<in> set url
      then (let last_seg = rev (takeWhile (\<lambda>c. c \<noteq> CHR ''/'') (rev url))
            in if CHR '';'' \<notin> set last_seg then url
               else take (length url - length last_seg) url
                      @ takeWhile (\<lambda>c. c \<noteq> CHR '';'') last_seg)
      else takeWhile (\<lambda>c. c \<noteq> CHR '';'') url)"

definition urlparse_path :: "(string \<Rightarrow> bool) \<Rightarrow> string \<Rightarrow> py_error + string" where
  "urlparse_path host_ok url0 =
     (let url1 = filter (\<lambda>c. c \<notin> set [CHR 0x09, CHR 0x0D, CHR 0x0A])
                   (dropWhile is_c0_or_space url0);
          (scheme, url2) = split_scheme url1;
          (netloc, url3) = (if take 2 url2 = ''//'' then splitnetloc url2 else ([], url2))
      in if (CHR ''['' \<in> set netloc \<and> CHR '']'' \<notin> set netloc)
            \<or> (CHR '']'' \<in> set netloc \<and> CHR ''['' \<notin> set netloc)
         then Inl ValueError
         else if CHR ''['' \<in> set netloc \<and> CHR '']'' \<in> set netloc
                 \<and> \<not> host_ok (takeWhile (\<lambda>c. c \<noteq> CHR '']'')
                                (drop 1 (dropWhile (\<lambda>c. c \<noteq> CHR ''['') netloc)))
         then Inl ValueError
         else (let url4 = takeWhile (\<lambda>c. c \<noteq> CHR ''#'') url3;
                   url5 = takeWhile (\<lambda>c. c \<noteq> CHR ''?'') url4
               in if scheme \<in> set uses_params \<and> CHR '';'' \<in> set url5
                  then Inr (splitparams url5)
                  else Inr url5))"

text \<open>\<open>os.path.basename\<close> and \<open>os.path.join\<close> of two parts, on a POSIX system.\<close>

definition basename :: "string \<Rightarrow> string" where
  "basename p = rev (takeWhile (\<lambda>c. c \<noteq> CHR ''/'') (rev p))"

definition os_path_join :: "string \<Rightarrow> string \<Rightarrow> string" where
  "os_path_join a b =
     (if startswith b ''/'' then b
      else if a = [] \<or> last a = CHR ''/'' then a @ b
      else a @ ''/'' @ b)"

subsection \<open>Document Fetcher: url\_to\_filename (download\_fr\_htmls.py)\<close>

definition url_to_filename :: "(string \<Rightarrow> bool) \<Rightarrow> string \<Rightarrow> py_error + string" where
  "url_to_filename host_ok url =
     (case urlparse_path host_ok (py_strip url) of
        Inl e \<Rightarrow> Inl e
      | Inr path \<Rightarrow> Inr (basename path))"

subsection \<open>Section Extractor: \_extract\_doc\_id\_from\_url (extract\_dfars\_sections\_ndaa.py)\<close>

text \<open>
  The result is \<open>None\<close> where the source returns \<open>None\<close>. \<open>split\<close> never returns an
  empty list, so the index \<open>[-1]\<close> is its last element.
\<close>

definition extract_doc_id_from_url :: "(string \<Rightarrow> bool) \<Rightarrow> string \<Rightarrow> py_error + string option" where
  "extract_doc_id_from_url host_ok url0 =
     (let url = py_strip url0
      in if url = [] then Inr None
         else (case urlparse_path host_ok url of
                 Inl e \<Rightarrow> Inl e
               | Inr path \<Rightarrow>
                   (let last_segment = last (py_split ''/'' (py_rstrip_chars ''/'' path));
                        doc_id = py_replace ''.html'' [] last_segment
                    in Inr (if doc_id \<noteq> [] then Some doc_id else None))))"

section \<open>CSV cells as pandas reads them\<close>

text \<open>
  \<open>pd.read_csv\<close> gives \<open>NaN\<close> for an empty field; \<open>Str s\<close> is any other value,
  \<open>s\<close> being what \<open>str\<close> makes of it. \<open>str(NaN)\<close> is \<open>"nan"\<close>.
\<close>

datatype csv_cell = NaN | Str string

definition str_of_cell :: "csv_cell \<Rightarrow> string" where
  "str_of_cell c = (case c of NaN \<Rightarrow> ''nan'' | Str s \<Rightarrow> s)"

text \<open>\<open>pd.isna(cell) or str(cell).strip() == ""\<close>.\<close>

definition cell_blank :: "csv_cell \<Rightarrow> bool" where
  "cell_blank c = (c = NaN \<or> py_strip (str_of_cell c) = [])"

section \<open>Document Fetcher (download\_fr\_htmls.py)\<close>

definition OUTPUT_DIR :: string where
  "OUTPUT_DIR = ''./data/fr_cases/html_from_tracker''"

text \<open>
  The first loop: \<open>seen_urls\<close> and \<open>download_list\<close> are threaded through the URLs of
  a cell and through the rows. \<open>url_to_filename\<close> is called outside any handler, so its
  \<open>ValueError\<close> ends the run.
\<close>

fun collect_urls ::
  "(string \<Rightarrow> bool) \<Rightarrow> string set \<times> (string \<times> string) list \<Rightarrow> string list
   \<Rightarrow> py_error + string set \<times> (string \<times> string) list" where
  "collect_urls host_ok st [] = Inr st"
| "collect_urls host_ok (seen_urls, download_list) (url # urls) =
     (if url \<in> seen_urls then collect_urls host_ok (seen_urls, download_list) urls
      else (case url_to_filename host_ok url of
              Inl e \<Rightarrow> Inl e
            | Inr filename \<Rightarrow>
                collect_urls host_ok
                  (insert url seen_urls,
                   download_list @ [(url, os_path_join OUTPUT_DIR filename)]) urls))"

fun collect_rows ::
  "(string \<Rightarrow> bool) \<Rightarrow> string set \<times> (string \<times> string) list \<Rightarrow> csv_cell list
   \<Rightarrow> py_error + string set \<times> (string \<times> string) list" where
  "collect_rows host_ok st [] = Inr st"
| "collect_rows host_ok st (url_cell # rows) =
     (if cell_blank url_cell then collect_rows host_ok st rows
      else (case collect_urls host_ok st (split_lines_stripped (str_of_cell url_cell)) of
              Inl e \<Rightarrow> Inl e
            | Inr st' \<Rightarrow> collect_rows host_ok st' rows))"

text \<open>
  The second loop runs against the outside world: \<open>files\<close> gives the content of every
  path that exists (\<open>os.path.getsize\<close> is its length), \<open>requests\<close> lists the URLs that
  were requested, in order. The web is the parameter \<open>server\<close>: the text of the response
  to a \<open>GET\<close>, or \<open>None\<close> when \<open>requests.get\<close> or \<open>raise_for_status\<close> raises.
  Writing is the parameter \<open>write_text\<close>: the files after \<open>open(filepath, "w")\<close> and
  \<open>f.write(text)\<close>, and whether both went through. \<open>download_html\<close> catches every
  exception and returns \<open>False\<close>.
\<close>

record fetch_state =
  files :: "string \<rightharpoonup> string"
  requests :: "string list"
  success :: nat
  failed :: nat

definition download_html ::
  "(string \<Rightarrow> string option) \<Rightarrow> ((string \<rightharpoonup> string) \<Rightarrow> string \<Rightarrow> string \<Rightarrow> (string \<rightharpoonup> string) \<times> bool)
   \<Rightarrow> fetch_state \<Rightarrow> string \<Rightarrow> string \<Rightarrow> fetch_state \<times> bool" where
  "download_html server write_text st url filepath =
     (let st1 = st\<lparr>requests := requests st @ [py_strip url]\<rparr>
      in case server (py_strip url) of
           None \<Rightarrow> (st1, False)
         | Some text \<Rightarrow>
             (let (files', ok) = write_text (files st1) filepath text
              in (st1\<lparr>files := files'\<rparr>, ok)))"

definition already_downloaded :: "fetch_state \<Rightarrow> string \<Rightarrow> bool" where
  "already_downloaded st filepath =
     (case files st filepath of None \<Rightarrow> False | Some text \<Rightarrow> 0 < length text)"

fun download_loop ::
  "(string \<Rightarrow> string option) \<Rightarrow> ((string \<rightharpoonup> string) \<Rightarrow> string \<Rightarrow> string \<Rightarrow> (string \<rightharpoonup> string) \<times> bool)
   \<Rightarrow> fetch_state \<Rightarrow> (string \<times> string) list \<Rightarrow> fetch_state" where
  "download_loop server write_text st [] = st"
| "download_loop server write_text st ((url, filepath) # rest) =
     (if already_downloaded st filepath
      then download_loop server write_text (st\<lparr>success := success st + 1\<rparr>) rest
      else (let (st', ok) = download_html server write_text st url filepath
            in download_loop server write_text
                 (if ok then st'\<lparr>success := success st' + 1\<rparr>
                  else st'\<lparr>failed := failed st' + 1\<rparr>) rest))"

text \<open>The script: the column \<open>fr_body_html_url\<close> of the CSV and the files on disk.\<close>

definition fetch_main ::
  "(string \<Rightarrow> bool) \<Rightarrow> (string \<Rightarrow> string option)
   \<Rightarrow> ((string \<rightharpoonup> string) \<Rightarrow> string \<Rightarrow> string \<Rightarrow> (string \<rightharpoonup> string) \<times> bool)
   \<Rightarrow> (string \<rightharpoonup> string) \<Rightarrow> csv_cell list \<Rightarrow> py_error + fetch_state" where
  "fetch_main host_ok server write_text disk rows =
     (case collect_rows host_ok ({}, []) rows of
        Inl e \<Rightarrow> Inl e
      | Inr (seen_urls, download_list) \<Rightarrow>
          Inr (download_loop server write_text
                 \<lparr>files = disk, requests = [], success = 0, failed = 0\<rparr> download_list))"

section \<open>Decimal numerals\<close>

text \<open>\<open>str(n)\<close> for an integer, and a number padded with zeros to a width.\<close>

definition digit_char :: "nat \<Rightarrow> char" where
  "digit_char d = ''0123456789'' ! d"

function str_of_nat :: "nat \<Rightarrow> string" where
  "str_of_nat n = (if n < 10 then [digit_char n] else str_of_nat (n div 10) @ [digit_char (n mod 10)])"
  by pat_completeness auto
termination
  by (relation "measure id") auto

definition str_of_int :: "int \<Rightarrow> string" where
  "str_of_int i = (if i < 0 then CHR ''-'' # str_of_nat (nat (- i)) else str_of_nat (nat i))"

definition zero_pad :: "nat \<Rightarrow> nat \<Rightarrow> string" where
  "zero_pad w n = replicate (w - length (str_of_nat n)) CHR ''0'' @ str_of_nat n"

section \<open>Statute Text Joiner (add\_ndaa\_text.py)\<close>

text \<open>
  A row of the detail CSV. The joiner reads two of its columns and adds \<open>ndaa_text\<close>;
  every row of the file has all its columns.
\<close>

record detail_row =
  d_ndaa_year :: string
  d_ndaa_section :: string
  d_case_number :: string
  d_document_id :: string
  d_affected_dfars_section :: string
  d_amendment_instruction :: string
  d_content :: string

record enriched_row = detail_row +
  ndaa_text :: string

text \<open>
  \<open>load_ndaa\<close>, \<open>find_sections\<close> and \<open>get_section_text_flat\<close> come from the module
  \<open>ndaa_utils\<close> and are parameters: \<open>load_ndaa fy\<close> is \<open>None\<close> when it raises
  \<open>FileNotFoundError\<close>, the loaded document otherwise; \<open>find_sections ndaa enum\<close> is
  the list of matching sections. The cache maps a fiscal year to the document or to
  \<open>None\<close>, as the dictionary \<open>ndaa_cache\<close> of the source does, and is returned
  updated; \<open>lookup_loaded\<close> is the function from \<open>ndaa = ndaa_cache[fy]\<close> on.
\<close>

definition lookup_loaded ::
  "('n \<Rightarrow> string \<Rightarrow> 's list) \<Rightarrow> ('s \<Rightarrow> string) \<Rightarrow> int \<Rightarrow> 'n option \<Rightarrow> string \<Rightarrow> string" where
  "lookup_loaded find_sections get_section_text_flat fy ndaa section_str =
     (case ndaa of
        None \<Rightarrow> ''[Error: NDAA JSON not found for FY'' @ str_of_int fy @ '']''
      | Some loaded \<Rightarrow>
          (case parse_section_enum section_str of
             None \<Rightarrow> ''[Error: could not parse section from '' @ [CHR 0x27] @ section_str
                       @ [CHR 0x27] @ '']''
           | Some enum \<Rightarrow>
               (case find_sections loaded enum of
                  [] \<Rightarrow> ''[Not found: FY'' @ str_of_int fy @ '' section '' @ section_str @ '']''
                | sec # _ \<Rightarrow> get_section_text_flat sec)))"

definition lookup_ndaa_text ::
  "(int \<Rightarrow> 'n option) \<Rightarrow> ('n \<Rightarrow> string \<Rightarrow> 's list) \<Rightarrow> ('s \<Rightarrow> string)
   \<Rightarrow> (int \<rightharpoonup> 'n option) \<Rightarrow> string \<Rightarrow> string \<Rightarrow> (int \<rightharpoonup> 'n option) \<times> string" where
  "lookup_ndaa_text load_ndaa find_sections get_section_text_flat cache fy_str section_str =
     (case parse_fy fy_str of
        None \<Rightarrow> (cache, ''[Error: could not parse FY from '' @ [CHR 0x27] @ fy_str
                          @ [CHR 0x27] @ '']'')
      | Some fy \<Rightarrow>
          (case cache fy of
             None \<Rightarrow>
               (case load_ndaa fy of
                  None \<Rightarrow> (cache(fy \<mapsto> None),
                            ''[Error: NDAA JSON not found for FY'' @ str_of_int fy @ '']'')
                | Some loaded \<Rightarrow>
                    (cache(fy \<mapsto> Some loaded),
                     lookup_loaded find_sections get_section_text_flat fy (Some loaded) section_str))
           | Some ndaa \<Rightarrow>
               (cache, lookup_loaded find_sections get_section_text_flat fy ndaa section_str)))"

text \<open>
  The lookup loop over \<open>sorted(unique_pairs)\<close>, threading both caches and the two
  counters.
\<close>

record 'n join_state =
  ndaa_cache :: "int \<rightharpoonup> 'n option"
  text_cache :: "string \<times> string \<rightharpoonup> string"
  found :: nat
  not_found :: nat

fun lookup_loop ::
  "(int \<Rightarrow> 'n option) \<Rightarrow> ('n \<Rightarrow> string \<Rightarrow> 's list) \<Rightarrow> ('s \<Rightarrow> string)
   \<Rightarrow> 'n join_state \<Rightarrow> (string \<times> string) list \<Rightarrow> 'n join_state" where
  "lookup_loop load_ndaa find_sections get_section_text_flat st [] = st"
| "lookup_loop load_ndaa find_sections get_section_text_flat st ((fy_str, section_str) # pairs) =
     (let (cache', text) = lookup_ndaa_text load_ndaa find_sections get_section_text_flat
                             (ndaa_cache st) fy_str section_str;
          st1 = st\<lparr>ndaa_cache := cache', text_cache := (text_cache st)((fy_str, section_str) \<mapsto> text)\<rparr>;
          st2 = (if startswith text ''['' then st1\<lparr>not_found := not_found st1 + 1\<rparr>
                 else st1\<lparr>found := found st1 + 1\<rparr>)
      in lookup_loop load_ndaa find_sections get_section_text_flat st2 pairs)"

definition row_key :: "detail_row \<Rightarrow> string \<times> string" where
  "row_key row = (d_ndaa_year row, d_ndaa_section row)"

text \<open>
  \<open>sorted(unique_pairs)\<close>: the pairs of the rows, each once, in the order of Python's
  tuples of strings.
\<close>

definition unique_pairs :: "detail_row list \<Rightarrow> (string \<times> string) list" where
  "unique_pairs rows = sorted_list_of_set (set (map row_key rows))"

definition add_ndaa_text :: "(string \<times> string \<rightharpoonup> string) \<Rightarrow> detail_row \<Rightarrow> enriched_row" where
  "add_ndaa_text tc row =
     detail_row.extend row
       (enriched_row.fields (case tc (row_key row) of
                               None \<Rightarrow> ''[Error: lookup failed]''
                             | Some text \<Rightarrow> text))"

text \<open>The script: the rows written, and the two counters it prints.\<close>

definition joiner_main ::
  "(int \<Rightarrow> 'n option) \<Rightarrow> ('n \<Rightarrow> string \<Rightarrow> 's list) \<Rightarrow> ('s \<Rightarrow> string)
   \<Rightarrow> detail_row list \<Rightarrow> enriched_row list \<times> nat \<times> nat" where
  "joiner_main load_ndaa find_sections get_section_text_flat rows =
     (let st = lookup_loop load_ndaa find_sections get_section_text_flat
                 \<lparr>ndaa_cache = Map.empty, text_cache = Map.empty, found = 0, not_found = 0\<rparr>
                 (unique_pairs rows)
      in (map (add_ndaa_text (text_cache st)) rows, found st, not_found st))"

text \<open>
  The invariant of \<open>ndaa_cache\<close>: what it holds for a year is what \<open>load_ndaa\<close> gives.
\<close>

definition cache_ok :: "(int \<Rightarrow> 'n option) \<Rightarrow> (int \<rightharpoonup> 'n option) \<Rightarrow> bool" where
  "cache_ok load_ndaa cache = (\<forall>fy v. cache fy = Some v \<longrightarrow> v = load_ndaa fy)"

section \<open>Citation Resolver (fetch\_citation.py)\<close>

subsection \<open>Dates: datetime.strptime and strftime\<close>

text \<open>
  \<open>strptime\<close> turns a format into a regular expression, one group per directive, and
  matches it at the start of the string with \<open>re.match\<close>. The groups of the three
  directives used here are alternatives of fixed sequences of character classes:
  \<open>%m\<close> is \<open>1[0-2]|0[1-9]|[1-9]\<close>, \<open>%d\<close> is \<open>3[0-1]|[1-2]\d|0[1-9]|[1-9]| [1-9]\<close>,
  \<open>%y\<close> is \<open>\d\d\<close> and \<open>%Y\<close> is \<open>\d\d\d\d\<close>. \<open>match_groups\<close> is the backtracking
  match of a sequence of such groups: the alternatives of a group are tried in order, and
  an alternative is given up when the rest of the expression does not match after it.
\<close>

definition one_of :: "string \<Rightarrow> char \<Rightarrow> bool" where
  "one_of cs c = (c \<in> set cs)"

fun match_seq :: "(char \<Rightarrow> bool) list \<Rightarrow> string \<Rightarrow> (string \<times> string) option" where
  "match_seq [] s = Some ([], s)"
| "match_seq (p # ps) [] = None"
| "match_seq (p # ps) (c # cs) =
     (if p c
      then (case match_seq ps cs of None \<Rightarrow> None | Some (m, rest) \<Rightarrow> Some (c # m, rest))
      else None)"

fun match_groups :: "(char \<Rightarrow> bool) list list list \<Rightarrow> string \<Rightarrow> (string list \<times> string) option"
  and try_alts :: "(char \<Rightarrow> bool) list list \<Rightarrow> (char \<Rightarrow> bool) list list list \<Rightarrow> string
                   \<Rightarrow> (string list \<times> string) option" where
  "match_groups [] s = Some ([], s)"
| "match_groups (g # gs) s = try_alts g gs s"
| "try_alts [] gs s = None"
| "try_alts (alt # alts) gs s =
     (case match_seq alt s of
        None \<Rightarrow> try_alts alts gs s
      | Some (m, rest) \<Rightarrow>
          (case match_groups gs rest of
             None \<Rightarrow> try_alts alts gs s
           | Some (ms, r) \<Rightarrow> Some (m # ms, r)))"

definition re_m :: "(char \<Rightarrow> bool) list list" where
  "re_m = [[one_of ''1'', one_of ''012''], [one_of ''0'', one_of ''123456789''],
           [one_of ''123456789'']]"

definition re_d :: "(char \<Rightarrow> bool) list list" where
  "re_d = [[one_of ''3'', one_of ''01''], [one_of ''12'', is_digit],
           [one_of ''0'', one_of ''123456789''], [one_of ''123456789''],
           [one_of '' '', one_of ''123456789'']]"

definition re_y :: "(char \<Rightarrow> bool) list list" where
  "re_y = [[is_digit, is_digit]]"

definition re_Y :: "(char \<Rightarrow> bool) list list" where
  "re_Y = [[is_digit, is_digit, is_digit, is_digit]]"

definition re_slash :: "(char \<Rightarrow> bool) list list" where
  "re_slash = [[one_of ''/'']]"

text \<open>\<open>int(s)\<close> for a group, which may begin with a space.\<close>

definition int_of_group :: "string \<Rightarrow> nat" where
  "int_of_group s = int_of_digits (py_strip s)"

text \<open>The calendar of \<open>datetime.date\<close>: years 1 to 9999.\<close>

definition is_leap :: "nat \<Rightarrow> bool" where
  "is_leap year = (year mod 4 = 0 \<and> (year mod 100 \<noteq> 0 \<or> year mod 400 = 0))"

definition days_in_month :: "nat \<Rightarrow> nat \<Rightarrow> nat" where
  "days_in_month year month =
     (if month = 2 \<and> is_leap year then 29
      else [0, 31, 28, 31, 30, 31, 30, 31, 31, 30, 31, 30, 31] ! month)"

definition valid_date :: "nat \<Rightarrow> nat \<Rightarrow> nat \<Rightarrow> bool" where
  "valid_date year month day =
     (1 \<le> year \<and> year \<le> 9999 \<and> 1 \<le> month \<and> month \<le> 12
      \<and> 1 \<le> day \<and> day \<le> days_in_month year month)"

text \<open>
  \<open>datetime.strptime(s, "%m/%d/%y")\<close> and \<open>datetime.strptime(s, "%m/%d/%Y")\<close>:
  \<open>None\<close> is \<open>ValueError\<close> (no match, unconverted data after the match, or no such
  date). A two-digit year up to 68 is in the 2000s, from 69 on in the 1900s.
\<close>

definition strptime :: "bool \<Rightarrow> string \<Rightarrow> (nat \<times> nat \<times> nat) option" where
  "strptime four_digit s =
     (case match_groups [re_m, re_slash, re_d, re_slash, if four_digit then re_Y else re_y] s of
        Some ([m, s1, d, s2, y], rest) \<Rightarrow>
          (if rest \<noteq> [] then None
           else (let year0 = int_of_group y;
                     year = (if four_digit then year0
                             else if year0 \<le> 68 then year0 + 2000 else year0 + 1900);
                     month = int_of_group m;
                     day = int_of_group d
                 in if valid_date year month day then Some (year, month, day) else None))
      | _ \<Rightarrow> None)"

text \<open>
  \<open>strftime("%Y-%m-%d")\<close>. The C library prints \<open>%Y\<close>: with four digits for every
  year where \<open>year_padded\<close> holds, and without leading zeros (as glibc does) where it
  does not.
\<close>

definition strftime_iso :: "bool \<Rightarrow> nat \<times> nat \<times> nat \<Rightarrow> string" where
  "strftime_iso year_padded date =
     (case date of (year, month, day) \<Rightarrow>
        (if year_padded then zero_pad 4 year else str_of_nat year)
        @ ''-'' @ zero_pad 2 month @ ''-'' @ zero_pad 2 day)"

fun parse_fr_date_formats :: "bool \<Rightarrow> string \<Rightarrow> bool list \<Rightarrow> string option" where
  "parse_fr_date_formats year_padded date_str [] = None"
| "parse_fr_date_formats year_padded date_str (fmt # fmts) =
     (case strptime fmt date_str of
        Some date \<Rightarrow> Some (strftime_iso year_padded date)
      | None \<Rightarrow> parse_fr_date_formats year_padded date_str fmts)"

definition parse_fr_date :: "bool \<Rightarrow> string \<Rightarrow> string option" where
  "parse_fr_date year_padded date_str =
     parse_fr_date_formats year_padded (py_strip date_str) [False, True]"

subsection \<open>Looking a citation up\<close>

text \<open>
  A document of the Federal Register API, as far as the script reads it; \<open>start_page\<close>
  is \<open>str(result.get("start_page"))\<close>. The fields asked for are strings. The API is the
  parameter \<open>api\<close>: the \<open>results\<close> of the search for an agency and a publication date,
  or \<open>None\<close> when the request raises \<open>RequestException\<close>, which the function catches.
\<close>

record fr_doc =
  title :: string
  body_html_url :: string
  html_url :: string
  document_number :: string
  start_page :: string

definition fetch_citation_by_date_and_page ::
  "bool \<Rightarrow> (string \<Rightarrow> string \<Rightarrow> fr_doc list option) \<Rightarrow> string \<Rightarrow> string \<Rightarrow> fr_doc option" where
  "fetch_citation_by_date_and_page year_padded api citation date_str =
     (let parts = py_split '' FR '' (py_strip citation)
      in if length parts \<noteq> 2 then None
         else
           (let page = py_strip (parts ! 1)
            in case parse_fr_date year_padded date_str of
                 None \<Rightarrow> None
               | Some iso_date \<Rightarrow>
                   (if iso_date = [] then None
                    else
                      (case api ''defense-acquisition-regulations-system'' iso_date of
                         None \<Rightarrow> None
                       | Some results \<Rightarrow>
                           (case find (\<lambda>result. start_page result = page) results of
                              Some result \<Rightarrow> Some result
                            | None \<Rightarrow>
                                (case api ''defense-department'' iso_date of
                                   None \<Rightarrow> None
                                 | Some results' \<Rightarrow>
                                     find (\<lambda>result. start_page result = page) results'))))))"

subsection \<open>The row loop\<close>

text \<open>
  \<open>while len(individual_dates) < len(individual_citations):
  individual_dates.append(individual_dates[-1])\<close>. The index \<open>[-1]\<close> raises
  \<open>IndexError\<close> on an empty list; nothing around the loop catches it.
\<close>

function pad_dates :: "string list \<Rightarrow> nat \<Rightarrow> py_error + string list" where
  "pad_dates individual_dates n =
     (if length individual_dates < n
      then (if individual_dates = [] then Inl IndexError
            else pad_dates (individual_dates @ [last individual_dates]) n)
      else Inr individual_dates)"
  by pat_completeness auto
termination
  by (relation "measure (\<lambda>(individual_dates, n). n - length individual_dates)") auto

declare pad_dates.simps [simp del]

fun resolve_loop ::
  "bool \<Rightarrow> (string \<Rightarrow> string \<Rightarrow> fr_doc list option) \<Rightarrow> string list \<times> string list
   \<Rightarrow> (string \<times> string) list \<Rightarrow> string list \<times> string list" where
  "resolve_loop year_padded api acc [] = acc"
| "resolve_loop year_padded api (row_titles, row_urls) ((citation, date) # rest) =
     (case fetch_citation_by_date_and_page year_padded api citation date of
        Some doc \<Rightarrow>
          resolve_loop year_padded api
            (row_titles @ [title doc],
             row_urls @ [if body_html_url doc \<noteq> [] then body_html_url doc else html_url doc])
            rest
      | None \<Rightarrow>
          resolve_loop year_padded api (row_titles @ [''Not Found''], row_urls @ [[]]) rest)"

text \<open>The body of the loop over the rows: the two cells appended for the row.\<close>

definition resolve_row ::
  "bool \<Rightarrow> (string \<Rightarrow> string \<Rightarrow> fr_doc list option) \<Rightarrow> csv_cell \<Rightarrow> csv_cell
   \<Rightarrow> py_error + string \<times> string" where
  "resolve_row year_padded api citation_cell date_cell =
     (if cell_blank citation_cell then Inr ([], [])
      else
        (let individual_citations = split_lines_stripped (py_strip (str_of_cell citation_cell));
             individual_dates = split_lines_stripped (py_strip (str_of_cell date_cell))
         in case pad_dates individual_dates (length individual_citations) of
              Inl e \<Rightarrow> Inl e
            | Inr dates \<Rightarrow>
                (case resolve_loop year_padded api ([], []) (zip individual_citations dates) of
                   (row_titles, row_urls) \<Rightarrow>
                     Inr (py_join [CHR 0x0A] row_titles, py_join [CHR 0x0A] row_urls))))"

fun resolve_rows ::
  "bool \<Rightarrow> (string \<Rightarrow> string \<Rightarrow> fr_doc list option) \<Rightarrow> string list \<times> string list
   \<Rightarrow> (csv_cell \<times> csv_cell) list \<Rightarrow> py_error + string list \<times> string list" where
  "resolve_rows year_padded api acc [] = Inr acc"
| "resolve_rows year_padded api (fr_titles, fr_html_urls) ((citation_cell, date_cell) # rows) =
     (case resolve_row year_padded api citation_cell date_cell of
        Inl e \<Rightarrow> Inl e
      | Inr (t, u) \<Rightarrow> resolve_rows year_padded api (fr_titles @ [t], fr_html_urls @ [u]) rows)"

text \<open>The script: the columns \<open>fr_title\<close> and \<open>fr_body_html_url\<close> it adds.\<close>

definition resolver_main ::
  "bool \<Rightarrow> (string \<Rightarrow> string \<Rightarrow> fr_doc list option) \<Rightarrow> (csv_cell \<times> csv_cell) list
   \<Rightarrow> py_error + string list \<times> string list" where
  "resolver_main year_padded api rows = resolve_rows year_padded api ([], []) rows"

section \<open>Section Extractor (extract\_dfars\_sections\_ndaa.py)\<close>

subsection \<open>The parsed document\<close>

text \<open>
  What \<open>BeautifulSoup(..., "html.parser")\<close> hands over: a tree of tags and strings. A
  tag has a name, the list of its classes (\<open>tag.get("class", [])\<close>), its \<open>id\<close> when it
  has one, and its children; the script reads no other attribute. \<open>Text\<close> is a
  \<open>NavigableString\<close> that \<open>get_text\<close> returns. The document is the list of the
  top-level nodes.
\<close>

datatype node = Text string | Tag string "string list" "string option" "node list"

fun is_tag :: "node \<Rightarrow> bool" where
  "is_tag (Tag name cls ident kids) = True"
| "is_tag (Text s) = False"

fun tag_name :: "node \<Rightarrow> string" where
  "tag_name (Tag name cls ident kids) = name"
| "tag_name (Text s) = []"

fun classes :: "node \<Rightarrow> string list" where
  "classes (Tag name cls ident kids) = cls"
| "classes (Text s) = []"

fun children :: "node \<Rightarrow> node list" where
  "children (Tag name cls ident kids) = kids"
| "children (Text s) = []"

text \<open>\<open>tag.get("id", "")\<close>.\<close>

fun get_id :: "node \<Rightarrow> string" where
  "get_id (Tag name cls ident kids) = (case ident of None \<Rightarrow> [] | Some i \<Rightarrow> i)"
| "get_id (Text s) = []"

text \<open>The strings below a node, in document order.\<close>

fun strings :: "node \<Rightarrow> string list" and strings_list :: "node list \<Rightarrow> string list" where
  "strings (Text s) = [s]"
| "strings (Tag name cls ident kids) = strings_list kids"
| "strings_list [] = []"
| "strings_list (n # ns) = strings n @ strings_list ns"

text \<open>\<open>tag.get_text()\<close> and \<open>tag.get_text(separator=" ", strip=True)\<close>.\<close>

definition get_text :: "node \<Rightarrow> string" where
  "get_text n = concat (strings n)"

definition get_text_stripped :: "node \<Rightarrow> string" where
  "get_text_stripped n =
     py_join '' '' (filter (\<lambda>s. s \<noteq> []) (map py_strip (strings n)))"

text \<open>
  The tags of a list of sibling nodes and below them, in document order, each with its
  previous siblings, nearest first (\<open>tag.previous_siblings\<close>).
\<close>

fun walk :: "node list \<Rightarrow> node list \<Rightarrow> (node list \<times> node) list" where
  "walk prev [] = []"
| "walk prev (Text s # rest) = walk (Text s # prev) rest"
| "walk prev (Tag name cls ident kids # rest) =
     (prev, Tag name cls ident kids) # walk [] kids @ walk (Tag name cls ident kids # prev) rest"

text \<open>\<open>tag.find_all(name, class_=c)\<close> and \<open>tag.find(name, class_=c)\<close>, over the descendants.\<close>

definition matches :: "string \<Rightarrow> string \<Rightarrow> node \<Rightarrow> bool" where
  "matches name c n = (is_tag n \<and> tag_name n = name \<and> c \<in> set (classes n))"

definition find_all :: "string \<Rightarrow> string \<Rightarrow> node list \<Rightarrow> node list" where
  "find_all name c nodes = filter (matches name c) (map snd (walk [] nodes))"

definition find_first :: "string \<Rightarrow> string \<Rightarrow> node \<Rightarrow> node option" where
  "find_first name c n = find (matches name c) (map snd (walk [] (children n)))"

text \<open>
  Every element with what follows it in the list: for a tag of the document, the tags
  after it in document order (\<open>tag.find_all_next\<close> starts with its own descendants).
\<close>

fun with_following :: "'a list \<Rightarrow> ('a \<times> 'a list) list" where
  "with_following [] = []"
| "with_following (x # xs) = (x, xs) # with_following xs"

text \<open>
  The \<open>div.section\<close> tags of the document, each with its previous siblings and with the
  \<open>p.amendment-part\<close> tags that follow it.
\<close>

definition section_divs :: "node list \<Rightarrow> (node list \<times> node \<times> node list) list" where
  "section_divs soup =
     map (\<lambda>((prev, n), following).
            (prev, n, filter (matches ''p'' ''amendment-part'') (map snd following)))
       (filter (\<lambda>((prev, n), following). matches ''div'' ''section'' n)
          (with_following (walk [] soup)))"

subsection \<open>The helpers\<close>

text \<open>\<open>_get_amendment_instruction\<close>, on the previous siblings of the section.\<close>

fun get_amendment_instruction :: "node list \<Rightarrow> string" where
  "get_amendment_instruction [] = []"
| "get_amendment_instruction (prev # others) =
     (if is_tag prev \<and> ''amendment-part'' \<in> set (classes prev) \<and> get_text_stripped prev \<noteq> []
      then get_text_stripped prev
      else get_amendment_instruction others)"

text \<open>\<open>_get_section_content\<close>.\<close>

definition get_section_content :: "node \<Rightarrow> string" where
  "get_section_content section_div =
     py_join [CHR 0x0A]
       (filter (\<lambda>p. p \<noteq> [])
          (map get_text_stripped
             (filter (\<lambda>child. is_tag child \<and> ''sectno'' \<notin> set (classes child))
                (children section_div))))"

text \<open>
  The section number of a section: \<open>None\<close> where the loops \<open>continue\<close> (no
  \<open>div.sectno-reference\<close>, or nothing left of its \<open>id\<close>).
\<close>

definition section_number :: "node \<Rightarrow> string option" where
  "section_number section_div =
     (case find_first ''div'' ''sectno-reference'' section_div of
        None \<Rightarrow> None
      | Some sectno_div \<Rightarrow>
          (let section_num = py_strip (py_replace ''sectno-reference-'' [] (get_id sectno_div))
           in if section_num = [] then None else Some section_num))"

definition is_amended :: "node \<Rightarrow> bool" where
  "is_amended section_div =
     (case find_first ''div'' ''section-subject'' section_div of
        None \<Rightarrow> False
      | Some subject \<Rightarrow> contains (get_text subject) ''[Amended]'')"

text \<open>
  The inner loop of \<open>_collect_amended_section_instructions\<close> over the paragraphs that
  follow the section.
\<close>

fun scan_instructions :: "string \<Rightarrow> string list \<Rightarrow> node list \<Rightarrow> string \<times> string list" where
  "scan_instructions main_instruction sub_instructions [] = (main_instruction, sub_instructions)"
| "scan_instructions main_instruction sub_instructions (elem # elems) =
     (if find_first ''span'' ''amendment-part-subnumber'' elem \<noteq> None
      then scan_instructions main_instruction
             (sub_instructions @ [get_text_stripped elem]) elems
      else if main_instruction = []
      then scan_instructions (get_text_stripped elem) sub_instructions elems
      else (main_instruction, sub_instructions))"

text \<open>
  \<open>_collect_amended_section_instructions\<close>: the dictionary from a section number to
  its instruction and content.
\<close>

fun collect_loop ::
  "(string \<rightharpoonup> string \<times> string) \<Rightarrow> (node list \<times> node \<times> node list) list
   \<Rightarrow> (string \<rightharpoonup> string \<times> string)" where
  "collect_loop result [] = result"
| "collect_loop result ((prev, section_div, following) # others) =
     (if \<not> is_amended section_div then collect_loop result others
      else (case section_number section_div of
              None \<Rightarrow> collect_loop result others
            | Some section_num \<Rightarrow>
                (case scan_instructions [] [] following of
                   (main_instruction, sub_instructions) \<Rightarrow>
                     collect_loop
                       (result(section_num \<mapsto>
                          (main_instruction,
                           if sub_instructions \<noteq> [] then py_join [CHR 0x0A] sub_instructions
                           else [])))
                       others)))"

definition collect_amended_section_instructions :: "node list \<Rightarrow> (string \<rightharpoonup> string \<times> string)" where
  "collect_amended_section_instructions soup = collect_loop Map.empty (section_divs soup)"

subsection \<open>extract\_dfars\_sections\<close>

record section_rec =
  affected_dfars_section :: string
  amendment_instruction :: string
  content :: string

text \<open>The first loop, threading \<open>results\<close> and \<open>seen_sections\<close>.\<close>

fun extract_loop ::
  "(string \<rightharpoonup> string \<times> string) \<Rightarrow> section_rec list \<times> string set
   \<Rightarrow> (node list \<times> node \<times> node list) list \<Rightarrow> section_rec list \<times> string set" where
  "extract_loop amended_instructions acc [] = acc"
| "extract_loop amended_instructions (results, seen_sections) ((prev, section_div, following) # others) =
     (case section_number section_div of
        None \<Rightarrow> extract_loop amended_instructions (results, seen_sections) others
      | Some section_num \<Rightarrow>
          (if section_num \<in> seen_sections
           then extract_loop amended_instructions (results, seen_sections) others
           else
             (let instruction0 = get_amendment_instruction prev;
                  content0 = get_section_content section_div;
                  (instruction1, content1) =
                    (if content0 = [] \<or> py_strip content0 = ''[Amended]''
                     then (case amended_instructions section_num of
                             None \<Rightarrow> (instruction0, content0)
                           | Some (instruction, sub_content) \<Rightarrow>
                               (if instruction \<noteq> [] then instruction else instruction0,
                                sub_content))
                     else (instruction0, content0))
              in extract_loop amended_instructions
                   (results @ [\<lparr>affected_dfars_section = section_num,
                                 amendment_instruction = instruction1,
                                 content = content1\<rparr>],
                    insert section_num seen_sections)
                   others)))"

text \<open>
  The fallback: \<open>re.findall(r"[Ss]ection\s+(\d{3}\.\d[\w\-\.]*)", text)\<close>.
  \<open>match_section_ref\<close> matches the expression at the start of a string and gives the
  group and what follows the match; both repetitions are greedy and nothing after them
  can take back what they matched. \<open>\w\<close> is Python's, on code points below 256.
\<close>

definition is_word_char :: "char \<Rightarrow> bool" where
  "is_word_char c =
     (let n = (of_char c :: nat)
      in (48 \<le> n \<and> n \<le> 57) \<or> (65 \<le> n \<and> n \<le> 90) \<or> n = 95 \<or> (97 \<le> n \<and> n \<le> 122)
         \<or> n = 170 \<or> n = 178 \<or> n = 179 \<or> n = 181 \<or> n = 185 \<or> n = 186
         \<or> (188 \<le> n \<and> n \<le> 190) \<or> (192 \<le> n \<and> n \<le> 214) \<or> (216 \<le> n \<and> n \<le> 246)
         \<or> 248 \<le> n)"

definition match_section_ref :: "string \<Rightarrow> (string \<times> string) option" where
  "match_section_ref s =
     (case s of
        [] \<Rightarrow> None
      | c # s1 \<Rightarrow>
          (if (c = CHR ''S'' \<or> c = CHR ''s'') \<and> startswith s1 ''ection''
           then (let s2 = drop 6 s1;
                     s3 = dropWhile is_space s2
                 in if takeWhile is_space s2 = [] then None
                    else (case s3 of
                            d1 # d2 # d3 # dot # d4 # s4 \<Rightarrow>
                              (if is_digit d1 \<and> is_digit d2 \<and> is_digit d3 \<and> dot = CHR ''.''
                                  \<and> is_digit d4
                               then (let more_chars =
                                           takeWhile (\<lambda>x. is_word_char x \<or> x = CHR ''-'' \<or> x = CHR ''.'') s4
                                     in Some ([d1, d2, d3, dot, d4] @ more_chars,
                                              drop (length more_chars) s4))
                               else None)
                          | _ \<Rightarrow> None))
           else None))"

lemma match_section_ref_shorter:
  "match_section_ref s = Some (g, rest) \<Longrightarrow> length rest < length s"
proof -
  assume a: "match_section_ref s = Some (g, rest)"
  then obtain c s1 where s: "s = c # s1" by (cases s) (auto simp: match_section_ref_def)
  have d: "length (dropWhile is_space (drop 6 s1)) \<le> length s1"
    by (rule le_trans[OF length_dropWhile_le]) simp
  from a s obtain d1 d2 d3 dot d4 s4 m
    where "dropWhile is_space (drop 6 s1) = d1 # d2 # d3 # dot # d4 # s4"
      and "rest = drop m s4"
    by (auto simp: match_section_ref_def Let_def split: if_splits list.splits)
  with d s show ?thesis by simp
qed

function findall_section_refs :: "string \<Rightarrow> string list" where
  "findall_section_refs [] = []"
| "findall_section_refs (c # cs) =
     (case match_section_ref (c # cs) of
        Some (g, rest) \<Rightarrow> g # findall_section_refs rest
      | None \<Rightarrow> findall_section_refs cs)"
  by pat_completeness auto
termination
  by (relation "measure length") (auto dest: match_section_ref_shorter)

fun fallback_matches ::
  "string \<Rightarrow> section_rec list \<times> string set \<Rightarrow> string list \<Rightarrow> section_rec list \<times> string set" where
  "fallback_matches text acc [] = acc"
| "fallback_matches text (results, seen_sections) (m # ms) =
     (if m \<notin> seen_sections
      then fallback_matches text
             (results @ [\<lparr>affected_dfars_section = m, amendment_instruction = text,
                           content = []\<rparr>],
              insert m seen_sections) ms
      else fallback_matches text (results, seen_sections) ms)"

fun fallback_loop ::
  "section_rec list \<times> string set \<Rightarrow> node list \<Rightarrow> section_rec list \<times> string set" where
  "fallback_loop acc [] = acc"
| "fallback_loop acc (p_tag # p_tags) =
     fallback_loop
       (fallback_matches (get_text_stripped p_tag) acc
          (findall_section_refs (get_text_stripped p_tag)))
       p_tags"

definition extract_dfars_sections :: "node list \<Rightarrow> section_rec list" where
  "extract_dfars_sections soup =
     (let amended_instructions = collect_amended_section_instructions soup;
          (results, seen_sections) = extract_loop amended_instructions ([], {}) (section_divs soup)
      in if results = []
         then fst (fallback_loop (results, seen_sections) (find_all ''p'' ''amendment-part'' soup))
         else results)"

subsection \<open>The script\<close>

text \<open>
  A row of the input CSV, read with \<open>dtype=str\<close> and \<open>fillna("")\<close>: every cell is a
  string. The cache directory is the parameter \<open>html_files\<close>: the parsed document of
  the file of a name, \<open>None\<close> when no such file exists.
\<close>

record rationale_row =
  r_fr_body_html_url :: string
  r_ndaa_year :: string
  r_ndaa_section :: string
  r_case_number :: string

record extract_state =
  all_details :: "detail_row list"
  affected_sections_col :: "string list"
  skipped :: "string list"
  processed_count :: nat

text \<open>\<open>for s in sections\<close>: the summary of the row and the detail rows.\<close>

fun sections_loop ::
  "rationale_row \<Rightarrow> string \<Rightarrow> string list \<times> detail_row list \<Rightarrow> section_rec list
   \<Rightarrow> string list \<times> detail_row list" where
  "sections_loop row doc_id acc [] = acc"
| "sections_loop row doc_id (row_sections, details) (s # ss) =
     sections_loop row doc_id
       (if affected_dfars_section s \<notin> set row_sections
        then row_sections @ [affected_dfars_section s] else row_sections,
        details @ [\<lparr>d_ndaa_year = r_ndaa_year row, d_ndaa_section = r_ndaa_section row,
                     d_case_number = r_case_number row, d_document_id = doc_id,
                     d_affected_dfars_section = affected_dfars_section s,
                     d_amendment_instruction = amendment_instruction s,
                     d_content = content s\<rparr>])
       ss"

text \<open>
  \<open>for url in urls\<close>: the state is \<open>row_sections\<close>, \<open>row_has_data\<close>, \<open>all_details\<close>
  and \<open>skipped\<close>. \<open>_extract_doc_id_from_url\<close> is called outside any handler.
\<close>

fun urls_loop ::
  "(string \<Rightarrow> bool) \<Rightarrow> (string \<rightharpoonup> node list) \<Rightarrow> rationale_row \<Rightarrow> nat
   \<Rightarrow> string list \<times> bool \<times> detail_row list \<times> string list \<Rightarrow> string list
   \<Rightarrow> py_error + string list \<times> bool \<times> detail_row list \<times> string list" where
  "urls_loop host_ok html_files row idx acc [] = Inr acc"
| "urls_loop host_ok html_files row idx (row_sections, row_has_data, details, skip) (url # urls) =
     (case extract_doc_id_from_url host_ok url of
        Inl e \<Rightarrow> Inl e
      | Inr None \<Rightarrow>
          urls_loop host_ok html_files row idx (row_sections, row_has_data, details, skip) urls
      | Inr (Some doc_id) \<Rightarrow>
          (case html_files (doc_id @ ''.html'') of
             None \<Rightarrow>
               urls_loop host_ok html_files row idx
                 (row_sections, row_has_data, details,
                  skip @ [doc_id @ '' (row '' @ str_of_nat idx @ '')'']) urls
           | Some soup \<Rightarrow>
               (let sections = extract_dfars_sections soup
                in if sections = []
                   then urls_loop host_ok html_files row idx
                          (row_sections, row_has_data, details,
                           skip @ [doc_id @ '' (row '' @ str_of_nat idx @ '', no sections)'']) urls
                   else (case sections_loop row doc_id (row_sections, details) sections of
                           (row_sections', details') \<Rightarrow>
                             urls_loop host_ok html_files row idx
                               (row_sections', True, details', skip) urls))))"

fun rows_loop ::
  "(string \<Rightarrow> bool) \<Rightarrow> (string \<rightharpoonup> node list) \<Rightarrow> extract_state \<Rightarrow> nat \<Rightarrow> rationale_row list
   \<Rightarrow> py_error + extract_state" where
  "rows_loop host_ok html_files st idx [] = Inr st"
| "rows_loop host_ok html_files st idx (row # rows) =
     (case urls_loop host_ok html_files row idx ([], False, all_details st, skipped st)
             (split_lines_stripped (r_fr_body_html_url row)) of
        Inl e \<Rightarrow> Inl e
      | Inr (row_sections, row_has_data, details, skip) \<Rightarrow>
          rows_loop host_ok html_files
            \<lparr>all_details = details,
             affected_sections_col = affected_sections_col st @ [py_join '';'' row_sections],
             skipped = skip,
             processed_count = (if row_has_data then processed_count st + 1
                                else processed_count st)\<rparr>
            (idx + 1) rows)"

definition extractor_main ::
  "(string \<Rightarrow> bool) \<Rightarrow> (string \<rightharpoonup> node list) \<Rightarrow> rationale_row list \<Rightarrow> py_error + extract_state" where
  "extractor_main host_ok html_files rows =
     rows_loop host_ok html_files
       \<lparr>all_details = [], affected_sections_col = [], skipped = [], processed_count = 0\<rparr>
       0 rows"

section \<open>Concrete inputs\<close>

text \<open>Inputs at which the theorems below are instantiated.\<close>

definition ex_header_row :: "cell list" where
  "ex_header_row = [Some '' '', Some ''831'', None, None, None, None, None, None, None,
     Some ''2019-D001'', None, None, None, None, Some ''88 FR 73238'', Some ''12/26/23'', None]"

definition ex_data_row :: "cell list" where
  "ex_data_row = [Some ''FY 19'', Some ''831'', None, Some ''Title'', None, None, None, None, None,
     Some ''2019-D001'', None, None, None, None, Some ''88 FR 73238'', Some ''12/26/23'', None]"

definition ex_full_text_url :: string where
  "ex_full_text_url =
     ''https://www.federalregister.gov/documents/full_text/html/2024/06/27/2024-13863.html''"

definition ex_padded_url :: string where
  "ex_padded_url =
     '' https://www.federalregister.gov/documents/full_text/html/2023/12/26/2023-28183.html?utm=1 ''"

text \<open>A document's \<open>html_url\<close>, which the Citation Resolver stores when \<open>body_html_url\<close> is empty.\<close>

definition ex_html_url :: string where
  "ex_html_url = ''https://www.federalregister.gov/documents/2024/06/27/2024-13863/defense-rule''"

text \<open>
  A column \<open>fr_body_html_url\<close> naming one document three times, an empty field and a
  second document; and a disk that already holds both files.
\<close>

definition ex_url_column :: "csv_cell list" where
  "ex_url_column =
     [Str ex_full_text_url, NaN,
      Str (ex_full_text_url @ [CHR 0x0A] @ ex_padded_url @ [CHR 0x0A] @ ex_full_text_url)]"

definition ex_disk :: "string \<rightharpoonup> string" where
  "ex_disk =
     [''./data/fr_cases/html_from_tracker/2024-13863.html'' \<mapsto> ''<html>a</html>'',
      ''./data/fr_cases/html_from_tracker/2023-28183.html'' \<mapsto> ''<html>b</html>'']"

definition ex_download_list :: "(string \<times> string) list" where
  "ex_download_list =
     [(ex_full_text_url, ''./data/fr_cases/html_from_tracker/2024-13863.html''),
      (py_strip ex_padded_url, ''./data/fr_cases/html_from_tracker/2023-28183.html'')]"

text \<open>Three detail rows, the first and the last with the same year and section.\<close>

definition ex_detail_rows :: "detail_row list" where
  "ex_detail_rows =
     [\<lparr>d_ndaa_year = ''FY24'', d_ndaa_section = ''831(a)'', d_case_number = ''2024-D001'',
       d_document_id = ''2024-13863'', d_affected_dfars_section = ''216.102'',
       d_amendment_instruction = ''2. Revise section 216.102.'', d_content = ''text''\<rparr>,
      \<lparr>d_ndaa_year = ''FY23'', d_ndaa_section = ''123'', d_case_number = ''2023-D002'',
       d_document_id = ''2023-28183'', d_affected_dfars_section = ''252.204-7012'',
       d_amendment_instruction = '''', d_content = ''''\<rparr>,
      \<lparr>d_ndaa_year = ''FY24'', d_ndaa_section = ''831(a)'', d_case_number = ''2024-D001'',
       d_document_id = ''2024-13863'', d_affected_dfars_section = ''216.103'',
       d_amendment_instruction = ''3. Revise section 216.103.'', d_content = ''more''\<rparr>]"

definition ex_load_ndaa :: "int \<Rightarrow> string option" where
  "ex_load_ndaa fy = (if fy = 2024 then Some ''ndaa-2024.json'' else None)"

definition ex_find_sections :: "string \<Rightarrow> string \<Rightarrow> string list" where
  "ex_find_sections ndaa enum = (if enum = ''831.'' then [''SEC. 831. Text.'', ''other''] else [])"

section \<open>Properties\<close>

subsection \<open>Fiscal-year tokens\<close>

lemma takeWhile_digits:
  "list_all is_digit ds \<Longrightarrow> rest = [] \<or> \<not> is_digit (hd rest) \<Longrightarrow>
   takeWhile is_digit (ds @ rest) = ds"
  by (cases rest) (auto simp: list_all_iff takeWhile_eq_all_conv[THEN iffD2])

text \<open>
  Claim C9. \<open>parse_fy\<close> maps \<open>FY24\<close> to 2024, \<open>FY10\<close> to 2010 and \<open>FY2024\<close> to 2024;
  a token \<open>FY\<close> followed by a run of digits whose number is at least 100 yields that
  number unchanged; a string that does not begin with \<open>FY\<close> and a digit yields no
  result.
\<close>

theorem parse_fy_spec:
  "parse_fy ''FY24'' = Some 2024 \<and> parse_fy ''FY10'' = Some 2010 \<and> parse_fy ''FY2024'' = Some 2024
   \<and> (\<forall>ds rest. ds \<noteq> [] \<and> list_all is_digit ds \<and> (rest = [] \<or> \<not> is_digit (hd rest))
          \<and> 100 \<le> int_of_digits ds
        \<longrightarrow> parse_fy (''FY'' @ ds @ rest) = Some (int (int_of_digits ds)))
   \<and> (\<forall>s. \<not> (\<exists>d rest. s = ''FY'' @ d # rest \<and> is_digit d) \<longrightarrow> parse_fy s = None)"
proof (intro conjI allI impI)
  show "parse_fy ''FY24'' = Some 2024" "parse_fy ''FY10'' = Some 2010"
    "parse_fy ''FY2024'' = Some 2024"
    by (simp_all add: parse_fy_def is_digit_def int_of_digits_def digit_val_def)
next
  fix ds rest
  assume a: "ds \<noteq> [] \<and> list_all is_digit ds \<and> (rest = [] \<or> \<not> is_digit (hd rest))
    \<and> 100 \<le> int_of_digits ds"
  then have "takeWhile is_digit (ds @ rest) = ds" using takeWhile_digits by blast
  with a show "parse_fy (''FY'' @ ds @ rest) = Some (int (int_of_digits ds))"
    by (simp add: parse_fy_def)
next
  fix s
  assume a: "\<not> (\<exists>d rest. s = ''FY'' @ d # rest \<and> is_digit d)"
  show "parse_fy s = None"
  proof (cases s)
    case Nil
    then show ?thesis by (simp add: parse_fy_def)
  next
    case (Cons f s1)
    show ?thesis
    proof (cases s1)
      case Nil
      with Cons show ?thesis by (simp add: parse_fy_def)
    next
      case (Cons y rest)
      show ?thesis
      proof (cases rest)
        case Nil
        with \<open>s = f # s1\<close> \<open>s1 = y # rest\<close> show ?thesis by (simp add: parse_fy_def)
      next
        case (Cons d rest')
        with a \<open>s = f # s1\<close> \<open>s1 = y # rest\<close>
        have "\<not> (f = CHR ''F'' \<and> y = CHR ''Y'' \<and> is_digit d)"
          by auto
        with Cons \<open>s = f # s1\<close> \<open>s1 = y # rest\<close> show ?thesis
          by (auto simp add: parse_fy_def)
      qed
    qed
  qed
qed

theorem parse_fy_spec_witness:
  "list_all is_digit ''2031'' \<and> 100 \<le> int_of_digits ''2031''
   \<and> parse_fy ''FY2031'' = Some 2031 \<and> parse_fy ''2031'' = None"
proof -
  have h: "''2031'' \<noteq> []" "list_all is_digit ''2031''" "100 \<le> int_of_digits ''2031''"
    "int (int_of_digits ''2031'') = 2031"
    by (simp_all add: is_digit_def int_of_digits_def digit_val_def)
  have g: "\<not> (\<exists>d rest. ''2031'' = ''FY'' @ d # rest \<and> is_digit d)" by simp
  have "parse_fy (''FY'' @ ''2031'' @ []) = Some (int (int_of_digits ''2031''))"
    using parse_fy_spec h by blast
  moreover have "parse_fy ''2031'' = None"
    using parse_fy_spec g by blast
  ultimately show ?thesis using h by simp
qed

subsection \<open>Tracker Parser\<close>

lemma process_table_row_fields:
  "process_table_row row = Some r \<Longrightarrow>
   ndaa_year r \<noteq> [] \<and> ndaa_section r \<noteq> [] \<and> frn_citation r \<noteq> []"
  by (auto simp: process_table_row_def Let_def split: if_splits)

lemma process_table_row_blank:
  "17 \<le> length row \<Longrightarrow>
   py_strip (cell_str (row ! 0)) = [] \<or> py_strip (cell_str (row ! 1)) = [] \<Longrightarrow>
   process_table_row row = None"
  by (auto simp: process_table_row_def Let_def)

lemma table_loop_set:
  "set (table_loop results rows)
   \<subseteq> set results \<union> {r. \<exists>row \<in> set rows. process_table_row row = Some r}"
proof (induction rows arbitrary: results)
  case Nil
  then show ?case by simp
next
  case (Cons row rows)
  show ?case
    using Cons.IH[of results] Cons.IH[of "results @ [the (process_table_row row)]"]
    by (cases "process_table_row row") auto
qed

lemma tables_loop_set:
  "set (tables_loop results tables)
   \<subseteq> set results \<union> {r. \<exists>table \<in> set tables. \<exists>row \<in> set table. process_table_row row = Some r}"
proof (induction tables arbitrary: results)
  case Nil
  then show ?case by simp
next
  case (Cons table tables)
  show ?case
    using Cons.IH[of "table_loop results table"] table_loop_set[of results table]
    by auto
qed

lemma pages_loop_set:
  "set (pages_loop results pdf)
   \<subseteq> set results \<union> {r. \<exists>tables \<in> set pdf. \<exists>table \<in> set tables. \<exists>row \<in> set table.
                            process_table_row row = Some r}"
proof (induction pdf arbitrary: results)
  case Nil
  then show ?case by simp
next
  case (Cons tables pdf)
  show ?case
    using Cons.IH[of "tables_loop results tables"] Cons.IH[of results]
      tables_loop_set[of results tables]
    by auto
qed

lemma ex_data_row_emitted:
  "process_table_row ex_data_row = Some \<lparr> ndaa_year = ''FY19'', ndaa_section = ''831'',
     paragraph_col = [], section_title = ''Title'', status = [], case_number = ''2019-D001'',
     frn_citation = ''88 FR 73238'', fr_date = ''12/26/23'' \<rparr>"
  by (simp add: process_table_row_def ex_data_row_def cell_str_def py_strip_def is_space_def
      startswith_def Let_def)

text \<open>
  Claim C10. A table row of at least 17 cells whose year cell or section cell is empty
  after stripping is passed over, whatever its final-rule citation cell holds; and every
  record the Tracker Parser emits has a non-empty \<open>ndaa_year\<close>, \<open>ndaa_section\<close> and
  \<open>frn_citation\<close>.
\<close>

theorem tracker_rows_nonempty:
  "(17 \<le> length row
      \<and> (py_strip (cell_str (row ! 0)) = [] \<or> py_strip (cell_str (row ! 1)) = [])
      \<longrightarrow> process_table_row row = None)
   \<and> (\<forall>r \<in> set (extract_final_rule_citations pdf).
         ndaa_year r \<noteq> [] \<and> ndaa_section r \<noteq> [] \<and> frn_citation r \<noteq> [])"
proof (intro conjI impI ballI)
  assume "17 \<le> length row
    \<and> (py_strip (cell_str (row ! 0)) = [] \<or> py_strip (cell_str (row ! 1)) = [])"
  then show "process_table_row row = None" using process_table_row_blank by blast
next
  fix r assume "r \<in> set (extract_final_rule_citations pdf)"
  then obtain row where "process_table_row row = Some r"
    using pages_loop_set[of "[]" pdf] by (auto simp: extract_final_rule_citations_def)
  then show "ndaa_year r \<noteq> []" "ndaa_section r \<noteq> []" "frn_citation r \<noteq> []"
    using process_table_row_fields by blast+
qed

theorem tracker_rows_nonempty_witness:
  "17 \<le> length ex_header_row \<and> py_strip (cell_str (ex_header_row ! 0)) = []
   \<and> cell_str (ex_header_row ! 14) \<noteq> []
   \<and> process_table_row ex_header_row = None
   \<and> extract_final_rule_citations [[[ex_header_row, ex_data_row]]] \<noteq> []
   \<and> ndaa_year (hd (extract_final_rule_citations [[[ex_header_row, ex_data_row]]])) \<noteq> []
   \<and> ndaa_section (hd (extract_final_rule_citations [[[ex_header_row, ex_data_row]]])) \<noteq> []
   \<and> frn_citation (hd (extract_final_rule_citations [[[ex_header_row, ex_data_row]]])) \<noteq> []"
proof -
  have h: "17 \<le> length ex_header_row" "py_strip (cell_str (ex_header_row ! 0)) = []"
     "cell_str (ex_header_row ! 14) \<noteq> []"
    by (simp_all add: ex_header_row_def cell_str_def py_strip_def is_space_def)
  have n: "process_table_row ex_header_row = None"
    using tracker_rows_nonempty[of ex_header_row "[]"] h by blast
  have e: "extract_final_rule_citations [[[ex_header_row, ex_data_row]]]
      = [the (process_table_row ex_data_row)]"
    by (simp add: extract_final_rule_citations_def n ex_data_row_emitted)
  have m: "hd (extract_final_rule_citations [[[ex_header_row, ex_data_row]]])
        \<in> set (extract_final_rule_citations [[[ex_header_row, ex_data_row]]])"
    by (simp add: e)
  have r: "ndaa_year (hd (extract_final_rule_citations [[[ex_header_row, ex_data_row]]])) \<noteq> []
      \<and> ndaa_section (hd (extract_final_rule_citations [[[ex_header_row, ex_data_row]]])) \<noteq> []
      \<and> frn_citation (hd (extract_final_rule_citations [[[ex_header_row, ex_data_row]]])) \<noteq> []"
    using tracker_rows_nonempty[of ex_header_row "[[[ex_header_row, ex_data_row]]]"] m by blast
  have ne: "extract_final_rule_citations [[[ex_header_row, ex_data_row]]] \<noteq> []"
    by (simp add: e)
  show ?thesis using h n r ne by simp
qed

subsection \<open>Strings: split, strip, replace\<close>

lemma py_split_nonempty: "py_split sep s \<noteq> []"
  by (induction sep s rule: py_split.induct) (auto split: list.splits)

lemma py_split_char_notin: "d \<notin> set s \<Longrightarrow> py_split [d] s = [s]"
  by (induction s) (auto simp: startswith_def)

lemma py_split_char_in: "d \<in> set s \<Longrightarrow> 1 < length (py_split [d] s)"
proof (induction s)
  case Nil
  then show ?case by simp
next
  case (Cons c cs)
  show ?case
  proof (cases "c = d")
    case True
    then show ?thesis
      using py_split_nonempty[of "[d]" cs]
      by (cases "py_split [d] cs") (auto simp: startswith_def)
  next
    case False
    with Cons show ?thesis by (auto simp: startswith_def split: list.splits)
  qed
qed

lemma last_py_split_char:
  "last (py_split [d] s) = rev (takeWhile (\<lambda>c. c \<noteq> d) (rev s))"
proof (induction s)
  case Nil
  then show ?case by simp
next
  case (Cons c cs)
  show ?case
  proof (cases "d \<in> set cs")
    case True
    then have l: "1 < length (py_split [d] cs)" by (rule py_split_char_in)
    then obtain p q ps where ps: "py_split [d] cs = p # q # ps"
      by (cases "py_split [d] cs"; cases "tl (py_split [d] cs)") auto
    have "last (py_split [d] (c # cs)) = last (py_split [d] cs)"
      using ps by (auto simp: startswith_def)
    moreover have "rev (takeWhile (\<lambda>c. c \<noteq> d) (rev (c # cs)))
        = rev (takeWhile (\<lambda>c. c \<noteq> d) (rev cs))"
      using True by simp
    ultimately show ?thesis using Cons by simp
  next
    case False
    then have s: "py_split [d] cs = [cs]" by (rule py_split_char_notin)
    show ?thesis
    proof (cases "c = d")
      case True
      have "takeWhile (\<lambda>c. c \<noteq> d) (rev cs @ [c]) = rev cs"
        using \<open>d \<notin> set cs\<close> True by (subst takeWhile_append2) auto
      then show ?thesis using s True by (simp add: startswith_def)
    next
      case False
      have "takeWhile (\<lambda>c. c \<noteq> d) (rev (c # cs)) = rev (c # cs)"
        using \<open>d \<notin> set cs\<close> False by (subst takeWhile_eq_all_conv) auto
      then have A: "rev (takeWhile (\<lambda>c. c \<noteq> d) (rev (c # cs))) = c # cs"
        by (metis rev_rev_ident)
      have B: "last (py_split [d] (c # cs)) = c # cs"
        using s False by (simp add: startswith_def)
      show ?thesis unfolding A B by (rule refl)
    qed
  qed
qed

lemma py_rstrip_chars_id: "s \<noteq> [] \<Longrightarrow> last s \<notin> set chars \<Longrightarrow> py_rstrip_chars chars s = s"
  by (cases s rule: rev_cases) (auto simp: py_rstrip_chars_def)

lemma short_list_cases:
  "length cs < 4 \<Longrightarrow>
   cs = [] \<or> (\<exists>a. cs = [a]) \<or> (\<exists>a b. cs = [a, b]) \<or> (\<exists>a b d. cs = [a, b, d])"
  by (cases cs; cases "tl cs"; cases "tl (tl cs)"; cases "tl (tl (tl cs))") auto

lemma replace_html_suffix:
  "\<not> contains doc ''.html'' \<Longrightarrow> py_replace ''.html'' [] (doc @ ''.html'') = doc"
proof (induction doc)
  case Nil
  then show ?case by (simp add: startswith_def)
next
  case (Cons c cs)
  have nc: "\<not> contains cs ''.html''" and ns: "\<not> startswith (c # cs) ''.html''"
    using Cons.prems by auto
  have "\<not> startswith ((c # cs) @ ''.html'') ''.html''"
  proof (cases "4 \<le> length cs")
    case True
    then show ?thesis using ns by (simp add: startswith_def)
  next
    case False
    then have "length cs < 4" by simp
    from short_list_cases[OF this] show ?thesis
      by (auto simp: startswith_def)
  qed
  then show ?case using Cons.IH[OF nc] by simp
qed

subsection \<open>Cache file name and document id\<close>

lemmas url_eval = is_space_def py_strip_def startswith_def urlparse_path_def split_scheme_def
  splitnetloc_def splitparams_def is_c0_or_space_def is_ascii_alpha_def lower_ascii_def
  scheme_chars_def uses_params_def basename_def url_to_filename_def
  extract_doc_id_from_url_def py_rstrip_chars_def

lemma urlparse_path_Nil: "urlparse_path host_ok [] = Inr []"
  by (simp add: urlparse_path_def split_scheme_def uses_params_def)

lemma doc_id_of_html_path:
  assumes p: "urlparse_path host_ok (py_strip url) = Inr path"
    and b: "basename path = doc @ ''.html''"
    and d: "doc \<noteq> []" and c: "\<not> contains doc ''.html''"
  shows "url_to_filename host_ok url = Inr (doc @ ''.html'')"
    and "extract_doc_id_from_url host_ok url = Inr (Some doc)"
proof -
  have ne: "py_strip url \<noteq> []"
  proof
    assume "py_strip url = []"
    with p urlparse_path_Nil[of host_ok] have "path = []" by simp
    with b show False by (simp add: basename_def)
  qed
  have pne: "path \<noteq> []" using b by (auto simp: basename_def)
  have "last path \<noteq> CHR ''/''"
  proof
    assume "last path = CHR ''/''"
    with pne have "basename path = []"
      by (cases path rule: rev_cases) (auto simp: basename_def)
    with b show False by simp
  qed
  then have r: "py_rstrip_chars ''/'' path = path"
    using pne by (simp add: py_rstrip_chars_id)
  have l: "last (py_split ''/'' path) = doc @ ''.html''"
    using last_py_split_char[of "CHR ''/''" path] b by (simp add: basename_def)
  show "url_to_filename host_ok url = Inr (doc @ ''.html'')"
    using p b by (simp add: url_to_filename_def)
  show "extract_doc_id_from_url host_ok url = Inr (Some doc)"
    using p ne r l d replace_html_suffix[OF c]
    by (simp add: extract_doc_id_from_url_def Let_def)
qed

lemma ex_full_text_url_path:
  "urlparse_path host_ok (py_strip ex_full_text_url)
   = Inr ''/documents/full_text/html/2024/06/27/2024-13863.html''"
  by (simp add: ex_full_text_url_def url_eval)

text \<open>
  Claim C6, as stated, fails: for a URL whose last path segment does not end in
  \<open>.html\<close> (a document's \<open>html_url\<close>), the Document Fetcher's file name is the segment
  itself, while the Section Extractor's document id followed by \<open>.html\<close> is a
  different name.
\<close>

theorem doc_id_filename_counterexample:
  "url_to_filename (\<lambda>h. True) ex_html_url = Inr ''defense-rule''
   \<and> extract_doc_id_from_url (\<lambda>h. True) ex_html_url = Inr (Some ''defense-rule'')
   \<and> ''defense-rule'' \<noteq> ''defense-rule'' @ ''.html''"
  by (simp add: ex_html_url_def url_eval)

text \<open>
  Claim C6, amended. For every URL whose path, as \<open>urlparse\<close> gives it for the stripped
  URL, has a last segment \<open>doc.html\<close> with \<open>doc\<close> not empty and not containing
  \<open>.html\<close>, the Document Fetcher's file name is \<open>doc.html\<close> and the Section
  Extractor's document id is \<open>doc\<close>; in particular the URL
  \<open>https://www.federalregister.gov/documents/full_text/html/2024/06/27/2024-13863.html\<close>
  yields \<open>2024-13863.html\<close> and \<open>2024-13863\<close>.
\<close>

theorem doc_id_matches_filename:
  "(urlparse_path host_ok (py_strip url) = Inr path \<and> basename path = doc @ ''.html''
      \<and> doc \<noteq> [] \<and> \<not> contains doc ''.html''
    \<longrightarrow> url_to_filename host_ok url = Inr (doc @ ''.html'')
        \<and> extract_doc_id_from_url host_ok url = Inr (Some doc))
   \<and> url_to_filename host_ok ex_full_text_url = Inr ''2024-13863.html''
   \<and> extract_doc_id_from_url host_ok ex_full_text_url = Inr (Some ''2024-13863'')"
proof (intro conjI impI)
  assume a: "urlparse_path host_ok (py_strip url) = Inr path \<and> basename path = doc @ ''.html''
      \<and> doc \<noteq> [] \<and> \<not> contains doc ''.html''"
  then show "url_to_filename host_ok url = Inr (doc @ ''.html'')"
    using doc_id_of_html_path(1) by blast
  from a show "extract_doc_id_from_url host_ok url = Inr (Some doc)"
    using doc_id_of_html_path(2) by blast
next
  have b: "basename ''/documents/full_text/html/2024/06/27/2024-13863.html'' = ''2024-13863'' @ ''.html''"
    by (simp add: basename_def)
  have c: "\<not> contains ''2024-13863'' ''.html''" by (simp add: startswith_def)
  show "url_to_filename host_ok ex_full_text_url = Inr ''2024-13863.html''"
    using doc_id_of_html_path(1)[OF ex_full_text_url_path b _ c] by simp
  show "extract_doc_id_from_url host_ok ex_full_text_url = Inr (Some ''2024-13863'')"
    using doc_id_of_html_path(2)[OF ex_full_text_url_path b _ c] by simp
qed

theorem doc_id_matches_filename_witness:
  "urlparse_path (\<lambda>h. True) (py_strip ex_padded_url)
     = Inr ''/documents/full_text/html/2023/12/26/2023-28183.html''
   \<and> basename ''/documents/full_text/html/2023/12/26/2023-28183.html'' = ''2023-28183'' @ ''.html''
   \<and> \<not> contains ''2023-28183'' ''.html''
   \<and> url_to_filename (\<lambda>h. True) ex_padded_url = Inr ''2023-28183.html''
   \<and> extract_doc_id_from_url (\<lambda>h. True) ex_padded_url = Inr (Some ''2023-28183'')"
proof -
  have p: "urlparse_path (\<lambda>h. True) (py_strip ex_padded_url)
     = Inr ''/documents/full_text/html/2023/12/26/2023-28183.html''"
    by (simp add: ex_padded_url_def url_eval)
  have b: "basename ''/documents/full_text/html/2023/12/26/2023-28183.html'' = ''2023-28183'' @ ''.html''"
    by (simp add: basename_def)
  have c: "\<not> contains ''2023-28183'' ''.html''" by (simp add: startswith_def)
  have d: "''2023-28183'' \<noteq> []" by simp
  have "url_to_filename (\<lambda>h. True) ex_padded_url = Inr (''2023-28183'' @ ''.html'')
      \<and> extract_doc_id_from_url (\<lambda>h. True) ex_padded_url = Inr (Some ''2023-28183'')"
    using doc_id_matches_filename[of "\<lambda>h. True" ex_padded_url
        "''/documents/full_text/html/2023/12/26/2023-28183.html''" "''2023-28183''"] p b c d
    by blast
  then show ?thesis using p b c by simp
qed

subsection \<open>Document Fetcher\<close>

lemma download_loop_present:
  "\<forall>(url, filepath) \<in> set dl. already_downloaded st filepath \<Longrightarrow>
   download_loop server write_text st dl = st\<lparr>success := success st + length dl\<rparr>"
proof (induction dl arbitrary: st)
  case Nil
  then show ?case by simp
next
  case (Cons a dl)
  obtain url filepath where a: "a = (url, filepath)" by (cases a)
  have p: "already_downloaded st filepath" using Cons.prems a by simp
  have q: "\<forall>(url, filepath) \<in> set dl.
      already_downloaded (st\<lparr>success := success st + 1\<rparr>) filepath"
    using Cons.prems by (auto simp: already_downloaded_def)
  show ?case using Cons.IH[OF q] p a by simp
qed

lemma collect_urls_distinct:
  "collect_urls host_ok (seen, dl) urls = Inr (seen', dl') \<Longrightarrow>
   distinct (map fst dl) \<Longrightarrow> fst ` set dl \<subseteq> seen \<Longrightarrow>
   distinct (map fst dl') \<and> fst ` set dl' \<subseteq> seen'"
proof (induction urls arbitrary: seen dl)
  case Nil
  then show ?case by simp
next
  case (Cons url urls)
  show ?case
  proof (cases "url \<in> seen")
    case True
    with Cons show ?thesis by simp
  next
    case False
    then obtain filename where f: "url_to_filename host_ok url = Inr filename"
      and r: "collect_urls host_ok
                (insert url seen, dl @ [(url, os_path_join OUTPUT_DIR filename)]) urls
              = Inr (seen', dl')"
      using Cons.prems(1) by (auto split: sum.splits)
    show ?thesis
      by (rule Cons.IH[OF r]) (use Cons.prems False in auto)
  qed
qed

lemma collect_rows_distinct:
  "collect_rows host_ok (seen, dl) rows = Inr (seen', dl') \<Longrightarrow>
   distinct (map fst dl) \<Longrightarrow> fst ` set dl \<subseteq> seen \<Longrightarrow>
   distinct (map fst dl') \<and> fst ` set dl' \<subseteq> seen'"
proof (induction rows arbitrary: seen dl)
  case Nil
  then show ?case by simp
next
  case (Cons c rows)
  show ?case
  proof (cases "cell_blank c")
    case True
    with Cons show ?thesis by simp
  next
    case False
    then obtain st
      where s: "collect_urls host_ok (seen, dl) (split_lines_stripped (str_of_cell c)) = Inr st"
        and r: "collect_rows host_ok st rows = Inr (seen', dl')"
      using Cons.prems(1) by (auto split: sum.splits)
    obtain seen1 dl1 where st: "st = (seen1, dl1)" by (cases st)
    have "distinct (map fst dl1) \<and> fst ` set dl1 \<subseteq> seen1"
      using collect_urls_distinct[OF s[unfolded st] Cons.prems(2,3)] .
    then show ?thesis using Cons.IH[OF r[unfolded st]] by blast
  qed
qed

lemma ex_url_column_collected:
  "collect_rows (\<lambda>h. True) ({}, []) ex_url_column
   = Inr ({ex_full_text_url, py_strip ex_padded_url}, ex_download_list)"
  by (simp add: ex_url_column_def ex_download_list_def cell_blank_def str_of_cell_def
      split_lines_stripped_def ex_full_text_url_def ex_padded_url_def OUTPUT_DIR_def
      os_path_join_def url_eval insert_commute)

text \<open>
  Claim C5. When the URLs of the rows have been collected (each URL once) and every
  target file is on disk and not empty, the Document Fetcher makes no request, counts
  every file as a success and none as failed, and leaves the disk as it was.
\<close>

theorem fetch_all_present:
  "collect_rows host_ok ({}, []) rows = Inr (seen_urls, download_list)
     \<and> (\<forall>(url, filepath) \<in> set download_list. \<exists>text. disk filepath = Some text \<and> text \<noteq> [])
   \<longrightarrow> distinct (map fst download_list)
       \<and> fetch_main host_ok server write_text disk rows
           = Inr \<lparr>files = disk, requests = [], success = length download_list, failed = 0\<rparr>"
proof (intro impI conjI)
  assume a: "collect_rows host_ok ({}, []) rows = Inr (seen_urls, download_list)
     \<and> (\<forall>(url, filepath) \<in> set download_list. \<exists>text. disk filepath = Some text \<and> text \<noteq> [])"
  then show "distinct (map fst download_list)"
    using collect_rows_distinct[of host_ok "{}" "[]" rows seen_urls download_list] by simp
  have "\<forall>(url, filepath) \<in> set download_list.
      already_downloaded \<lparr>files = disk, requests = [], success = 0, failed = 0\<rparr> filepath"
    using a by (auto simp: already_downloaded_def)
  from download_loop_present[OF this] a
  show "fetch_main host_ok server write_text disk rows
           = Inr \<lparr>files = disk, requests = [], success = length download_list, failed = 0\<rparr>"
    by (simp add: fetch_main_def)
qed

theorem fetch_all_present_witness:
  "collect_rows (\<lambda>h. True) ({}, []) ex_url_column
     = Inr ({ex_full_text_url, py_strip ex_padded_url}, ex_download_list)
   \<and> list_all (\<lambda>(url, filepath). ex_disk filepath \<noteq> None \<and> ex_disk filepath \<noteq> Some [])
       ex_download_list
   \<and> fetch_main (\<lambda>h. True) (\<lambda>u. Some ''<html>new</html>'') (\<lambda>fs p t. (fs(p \<mapsto> t), True))
       ex_disk ex_url_column
     = Inr \<lparr>files = ex_disk, requests = [], success = 2, failed = 0\<rparr>"
proof -
  have p: "\<forall>(url, filepath) \<in> set ex_download_list.
      \<exists>text. ex_disk filepath = Some text \<and> text \<noteq> []"
    by (simp add: ex_download_list_def ex_disk_def)
  have q: "list_all (\<lambda>(url, filepath). ex_disk filepath \<noteq> None \<and> ex_disk filepath \<noteq> Some [])
       ex_download_list"
    by (simp add: ex_download_list_def ex_disk_def)
  have l: "length ex_download_list = 2" by (simp add: ex_download_list_def)
  show ?thesis
    using fetch_all_present[of "\<lambda>h. True" ex_url_column
        "{ex_full_text_url, py_strip ex_padded_url}" ex_download_list ex_disk
        "\<lambda>u. Some ''<html>new</html>''" "\<lambda>fs p t. (fs(p \<mapsto> t), True)"]
      ex_url_column_collected p q l
    by simp
qed

subsection \<open>Statute Text Joiner\<close>

declare str_of_nat.simps [simp del]

lemma lookup_ndaa_text_cache_ok:
  "cache_ok L cache \<Longrightarrow> cache_ok L (fst (lookup_ndaa_text L F G cache y s))"
  by (auto simp: cache_ok_def lookup_ndaa_text_def split: option.splits)

lemma lookup_ndaa_text_pure:
  "cache_ok L cache \<Longrightarrow>
   snd (lookup_ndaa_text L F G cache y s) = snd (lookup_ndaa_text L F G Map.empty y s)"
  by (auto simp: cache_ok_def lookup_ndaa_text_def lookup_loaded_def split: option.splits)

lemma lookup_loop_text_cache:
  "cache_ok L (ndaa_cache st) \<Longrightarrow>
   text_cache (lookup_loop L F G st pairs) k =
     (if k \<in> set pairs then Some (snd (lookup_ndaa_text L F G Map.empty (fst k) (snd k)))
      else text_cache st k)"
proof (induction pairs arbitrary: st)
  case Nil
  then show ?case by simp
next
  case (Cons p pairs)
  obtain y s where p: "p = (y, s)" by (cases p)
  obtain c t where l: "lookup_ndaa_text L F G (ndaa_cache st) y s = (c, t)"
    by (cases "lookup_ndaa_text L F G (ndaa_cache st) y s")
  have c: "cache_ok L c" using lookup_ndaa_text_cache_ok[OF Cons.prems, of F G y s] l by simp
  have t: "t = snd (lookup_ndaa_text L F G Map.empty y s)"
    using lookup_ndaa_text_pure[OF Cons.prems, of F G y s] l by simp
  show ?case
    using p l c t Cons.IH by (simp add: Let_def)
qed

lemma lookup_loop_counters:
  "found (lookup_loop L F G st pairs) + not_found (lookup_loop L F G st pairs)
   = found st + not_found st + length pairs"
proof (induction pairs arbitrary: st)
  case Nil
  then show ?case by simp
next
  case (Cons p pairs)
  obtain y s where p: "p = (y, s)" by (cases p)
  obtain c t where l: "lookup_ndaa_text L F G (ndaa_cache st) y s = (c, t)"
    by (cases "lookup_ndaa_text L F G (ndaa_cache st) y s")
  show ?case using p l Cons.IH by (simp add: Let_def)
qed

lemma unique_pairs_props:
  "distinct (unique_pairs rows) \<and> set (unique_pairs rows) = set (map row_key rows)"
  by (simp add: unique_pairs_def)

lemma truncate_add_ndaa_text: "detail_row.truncate (add_ndaa_text tc row) = row"
  by (simp add: add_ndaa_text_def detail_row.truncate_def detail_row.extend_def)

lemma ndaa_text_add_ndaa_text:
  "ndaa_text (add_ndaa_text tc row)
   = (case tc (row_key row) of None \<Rightarrow> ''[Error: lookup failed]'' | Some text \<Rightarrow> text)"
  by (simp add: add_ndaa_text_def detail_row.extend_def enriched_row.fields_def)

text \<open>
  Claim C4. The Statute Text Joiner writes the rows it read, each with one
  \<open>ndaa_text\<close>: the text \<open>lookup_ndaa_text\<close> gives for the row's year and section,
  whatever the caches held when the pair was looked up. Rows with the same pair get the
  same text. The lookup loop runs over the distinct pairs of the rows, once each: the two
  counters add up to their number.
\<close>

theorem joiner_fanout:
  "map detail_row.truncate (fst (joiner_main L F G rows)) = rows
   \<and> (\<forall>i < length rows.
         ndaa_text (fst (joiner_main L F G rows) ! i)
         = snd (lookup_ndaa_text L F G Map.empty
                  (d_ndaa_year (rows ! i)) (d_ndaa_section (rows ! i))))
   \<and> (\<forall>i < length rows. \<forall>j < length rows. row_key (rows ! i) = row_key (rows ! j)
         \<longrightarrow> ndaa_text (fst (joiner_main L F G rows) ! i)
             = ndaa_text (fst (joiner_main L F G rows) ! j))
   \<and> distinct (unique_pairs rows) \<and> set (unique_pairs rows) = set (map row_key rows)
   \<and> fst (snd (joiner_main L F G rows)) + snd (snd (joiner_main L F G rows))
       = length (unique_pairs rows)"
proof -
  let ?init = "\<lparr>ndaa_cache = Map.empty, text_cache = Map.empty, found = 0, not_found = 0\<rparr>
    :: 'a join_state"
  let ?st = "lookup_loop L F G ?init (unique_pairs rows)"
  have ok: "cache_ok L (ndaa_cache ?init)" by (simp add: cache_ok_def)
  have out: "fst (joiner_main L F G rows) = map (add_ndaa_text (text_cache ?st)) rows"
    by (simp add: joiner_main_def Let_def)
  have a: "map detail_row.truncate (fst (joiner_main L F G rows)) = rows"
    unfolding out by (simp add: truncate_add_ndaa_text comp_def)
  have tc: "text_cache ?st (row_key (rows ! i))
      = Some (snd (lookup_ndaa_text L F G Map.empty
                     (d_ndaa_year (rows ! i)) (d_ndaa_section (rows ! i))))"
    if "i < length rows" for i
  proof -
    have "row_key (rows ! i) \<in> set (unique_pairs rows)"
      using that unique_pairs_props[of rows] by simp
    then show ?thesis
      using lookup_loop_text_cache[OF ok, of F G "unique_pairs rows" "row_key (rows ! i)"]
      by (simp add: row_key_def)
  qed
  have b: "ndaa_text (fst (joiner_main L F G rows) ! i)
         = snd (lookup_ndaa_text L F G Map.empty
                  (d_ndaa_year (rows ! i)) (d_ndaa_section (rows ! i)))"
    if "i < length rows" for i
    unfolding out using that tc[OF that] by (simp add: ndaa_text_add_ndaa_text)
  have c: "ndaa_text (fst (joiner_main L F G rows) ! i)
      = ndaa_text (fst (joiner_main L F G rows) ! j)"
    if "i < length rows" "j < length rows" "row_key (rows ! i) = row_key (rows ! j)" for i j
    using b[OF that(1)] b[OF that(2)] that(3) by (simp add: row_key_def)
  have d: "fst (snd (joiner_main L F G rows)) + snd (snd (joiner_main L F G rows))
      = length (unique_pairs rows)"
    using lookup_loop_counters[of L F G ?init "unique_pairs rows"]
    by (simp add: joiner_main_def Let_def)
  show ?thesis using a b c d unique_pairs_props[of rows] by blast
qed

theorem joiner_fanout_witness:
  "row_key (ex_detail_rows ! 0) = row_key (ex_detail_rows ! 2)
   \<and> ndaa_text (fst (joiner_main ex_load_ndaa ex_find_sections id ex_detail_rows) ! 0)
       = ''SEC. 831. Text.''
   \<and> ndaa_text (fst (joiner_main ex_load_ndaa ex_find_sections id ex_detail_rows) ! 2)
       = ''SEC. 831. Text.''
   \<and> ndaa_text (fst (joiner_main ex_load_ndaa ex_find_sections id ex_detail_rows) ! 1)
       = ''[Error: NDAA JSON not found for FY2023]''"
proof -
  have l: "(0::nat) < length ex_detail_rows" "(1::nat) < length ex_detail_rows"
    "(2::nat) < length ex_detail_rows"
    by (simp_all add: ex_detail_rows_def)
  have k: "row_key (ex_detail_rows ! 0) = row_key (ex_detail_rows ! 2)"
    by (simp add: ex_detail_rows_def row_key_def)
  have s: "str_of_int 2023 = ''2023''"
    by (simp add: str_of_int_def str_of_nat.simps digit_char_def)
  have t0: "snd (lookup_ndaa_text ex_load_ndaa ex_find_sections id Map.empty
                  (d_ndaa_year (ex_detail_rows ! 0)) (d_ndaa_section (ex_detail_rows ! 0)))
            = ''SEC. 831. Text.''"
    by (simp add: ex_detail_rows_def lookup_ndaa_text_def lookup_loaded_def parse_fy_def
        parse_section_enum_def is_digit_def int_of_digits_def digit_val_def ex_load_ndaa_def
        ex_find_sections_def)
  have t1: "snd (lookup_ndaa_text ex_load_ndaa ex_find_sections id Map.empty
                  (d_ndaa_year (ex_detail_rows ! 1)) (d_ndaa_section (ex_detail_rows ! 1)))
            = ''[Error: NDAA JSON not found for FY2023]''"
    by (simp add: ex_detail_rows_def lookup_ndaa_text_def lookup_loaded_def parse_fy_def
        is_digit_def int_of_digits_def digit_val_def ex_load_ndaa_def s)
  note j = joiner_fanout[of ex_load_ndaa ex_find_sections id ex_detail_rows]
  have r0: "ndaa_text (fst (joiner_main ex_load_ndaa ex_find_sections id ex_detail_rows) ! 0)
      = ''SEC. 831. Text.''"
    using j l(1) t0 by metis
  have r1: "ndaa_text (fst (joiner_main ex_load_ndaa ex_find_sections id ex_detail_rows) ! 1)
      = ''[Error: NDAA JSON not found for FY2023]''"
    using j l(2) t1 by metis
  have r2: "ndaa_text (fst (joiner_main ex_load_ndaa ex_find_sections id ex_detail_rows) ! 2)
      = ndaa_text (fst (joiner_main ex_load_ndaa ex_find_sections id ex_detail_rows) ! 0)"
    using j l(1) l(3) k by metis
  show ?thesis using k r0 r1 r2 by simp
qed

end
